theory Spec2Isabelle
  imports Main
begin

section \<open>The demonstration server of index.js\<close>

text \<open>
  index.js is an Express application over one SQLite connection. Every route is one
  SQL statement between a request and a JSON response. The model below follows the file
  from top to bottom: the values that travel (JSON, responses), the two tables created at
  start-up, the statements each route prepares, the gate \<open>authMiddleware\<close> and the eight
  routes.

  Modelling conventions.
  \<^item> A string is the sequence of bytes of its UTF-8 form, as it is sent on the wire and
    as SQLite stores it. (A JavaScript string with an unpaired surrogate has no such form
    and is outside the model.)
  \<^item> Request fields are modelled at the types the data model gives them: \<open>username\<close>,
    \<open>password\<close> and \<open>content\<close> are strings, a post's \<open>userId\<close> is an integer; the path
    parameter \<open>:id\<close> and the query parameter \<open>userId\<close> are the strings Express hands over.
    The one field whose absence the code tests is the \<open>Authorization\<close> header, an option.
  \<^item> A response is its status and its body. No other request header is modelled, so
    conditional requests (which Express may answer with 304) are outside the model.
  \<^item> JavaScript numbers are doubles; the model keeps the integral ones as \<open>int\<close>.
  \<^item> The libraries bcrypt and xss are called once each; their functions are parameters of
    the routes that call them.
\<close>

subsection \<open>JSON values and responses\<close>

datatype json =
    JNull
  | JBool bool
  | JNum int
  | JStr string
  | JArr "json list"
  | JObj "(string \<times> json) list"

text \<open>
  What a client receives: a JSON document, nothing at all (\<open>res.json(undefined)\<close> sends
  an empty body), or the error page of Express's default error handler.
\<close>

datatype payload = NoBody | JsonBody json | ErrorPage

record response =
  status :: nat
  body :: payload

text \<open>\<open>res.status(st).json(v)\<close>; \<open>res.json(v)\<close> is the case \<open>st = 200\<close>. \<open>None\<close> is
  JavaScript's \<open>undefined\<close>.\<close>

definition res_json :: "nat \<Rightarrow> json option \<Rightarrow> response" where
  "res_json st v = \<lparr>status = st, body = (case v of None \<Rightarrow> NoBody | Some j \<Rightarrow> JsonBody j)\<rparr>"

text \<open>An exception that leaves a synchronous route reaches Express's default error
  handler, which answers 500.\<close>

definition uncaught :: response where
  "uncaught = \<lparr>status = 500, body = ErrorPage\<rparr>"

definition success_true :: json where
  "success_true = JObj [(''success'', JBool True)]"

subsection \<open>The gate\<close>

record headers =
  authorization :: "string option"

text \<open>A middleware either calls \<open>next()\<close> or sends a response itself.\<close>

datatype gate = Next | Send response

text \<open>The message of the rejection, \<open>N\<close>, a-tilde (bytes C3 A3), \<open>o autorizado\<close>.\<close>

definition nao_autorizado :: string where
  "nao_autorizado = ''N'' @ [CHR 0xC3, CHR 0xA3] @ ''o autorizado''"

definition authMiddleware :: "headers \<Rightarrow> gate" where
  "authMiddleware h =
     (if authorization h = Some ''Bearer valid_token'' then Next
      else Send (res_json 401 (Some (JObj [(''error'', JStr nao_autorizado)]))))"

text \<open>\<open>app.get(path, authMiddleware, handler)\<close>: the handler runs only after \<open>next()\<close>.\<close>

definition guarded :: "headers \<Rightarrow> response \<Rightarrow> response" where
  "guarded h handler = (case authMiddleware h of Next \<Rightarrow> handler | Send r \<Rightarrow> r)"

subsection \<open>The store\<close>

text \<open>
  The schema of lines 17 to 29: \<open>users(id, username UNIQUE, password)\<close> and
  \<open>posts(id, user_id, content)\<close> with \<open>FOREIGN KEY (user_id) REFERENCES users(id)\<close>.
  A table is the list of its rows in insertion order.
\<close>

record user_row =
  users_id :: int
  users_username :: string
  users_password :: string

record post_row =
  posts_id :: int
  posts_user_id :: int
  posts_content :: string

record db =
  users :: "user_row list"
  posts :: "post_row list"

text \<open>
  The connection is the one \<open>require('better-sqlite3')('database.sqlite')\<close> opens.
  better-sqlite3 opens its connections with the enforcement of foreign keys on, and
  index.js never turns it off, so the FOREIGN KEY clause of \<open>posts\<close> is checked on every
  insertion, as the UNIQUE clause of \<open>users\<close> is.
\<close>

datatype sqlite_error = UniqueUsername | ForeignKey

text \<open>\<open>error.message\<close> of the SqliteError that \<open>run\<close> throws.\<close>

fun message :: "sqlite_error \<Rightarrow> string" where
  "message UniqueUsername = ''UNIQUE constraint failed: users.username''"
| "message ForeignKey = ''FOREIGN KEY constraint failed''"

text \<open>
  \<open>INTEGER PRIMARY KEY AUTOINCREMENT\<close>: the new row's id is one more than the largest
  id the table has held; no route deletes a row or chooses an id, so that is the largest
  id in the table, and 1 in an empty table. (The ceiling of 2^63 - 1 is not modelled.)
\<close>

definition next_rowid :: "int list \<Rightarrow> int" where
  "next_rowid ids = fold max ids 0 + 1"

text \<open>\<open>INSERT INTO users (username, password) VALUES (?, ?)\<close>\<close>

definition insert_user :: "db \<Rightarrow> string \<Rightarrow> string \<Rightarrow> sqlite_error + db" where
  "insert_user d u p =
     (if u \<in> set (map users_username (users d)) then Inl UniqueUsername
      else Inr (d\<lparr>users := users d @
             [\<lparr>users_id = next_rowid (map users_id (users d)),
               users_username = u, users_password = p\<rparr>]\<rparr>))"

text \<open>\<open>INSERT INTO posts (user_id, content) VALUES (?, ?)\<close>\<close>

definition insert_post :: "db \<Rightarrow> int \<Rightarrow> string \<Rightarrow> sqlite_error + db" where
  "insert_post d u c =
     (if u \<notin> set (map users_id (users d)) then Inl ForeignKey
      else Inr (d\<lparr>posts := posts d @
             [\<lparr>posts_id = next_rowid (map posts_id (posts d)),
               posts_user_id = u, posts_content = c\<rparr>]\<rparr>))"

text \<open>The row objects better-sqlite3 returns for the three column lists of the file.\<close>

definition users_star :: "user_row \<Rightarrow> json" where
  "users_star r =
     JObj [(''id'', JNum (users_id r)), (''username'', JStr (users_username r)),
           (''password'', JStr (users_password r))]"

definition users_id_username :: "user_row \<Rightarrow> json" where
  "users_id_username r =
     JObj [(''id'', JNum (users_id r)), (''username'', JStr (users_username r))]"

definition posts_star :: "post_row \<Rightarrow> json" where
  "posts_star r =
     JObj [(''id'', JNum (posts_id r)), (''user_id'', JNum (posts_user_id r)),
           (''content'', JStr (posts_content r))]"

text \<open>\<open>Statement.get\<close>: the first row, or \<open>undefined\<close>.\<close>

fun stmt_get :: "'a list \<Rightarrow> 'a option" where
  "stmt_get [] = None"
| "stmt_get (r # _) = Some r"

subsection \<open>Text against an integer column\<close>

text \<open>
  The routes bind the path parameter and the query parameter, which are strings, to
  \<open>?\<close> in \<open>id = ?\<close> and \<open>user_id = ?\<close>. Both columns are INTEGER, so SQLite gives the text
  operand NUMERIC affinity before it compares. The model reads two kinds of text:
  \<^item> a minus sign, if any, and then decimal digits: the text is compared as that integer;
  \<^item> text with a character that no number is written with (anything but a digit, a
    sign, a point, \<open>e\<close>, \<open>E\<close>, white space and the NUL byte, at which some readers of
    text stop): it is no number, stays TEXT, and equals no integer.
  Every other text (a fraction, an exponent, a plus sign, padding, as in \<open>1.0\<close>, \<open>1e0\<close>)
  may be a number that SQLite holds as a REAL or converts on its own terms. The model
  has no floating point and does not read it: it is \<open>Unread\<close>, and a route that
  compares such text has no modelled answer (\<open>None\<close>, which says nothing about what the
  server does).
\<close>

definition is_digit :: "char \<Rightarrow> bool" where
  "is_digit c = (c \<in> set ''0123456789'')"

definition digits_value :: "string \<Rightarrow> int" where
  "digits_value ds = fold (\<lambda>c n. 10 * n + (int (of_char c) - 48)) ds 0"

definition unsigned_int :: "string \<Rightarrow> int option" where
  "unsigned_int ds =
     (if ds \<noteq> [] \<and> list_all is_digit ds then Some (digits_value ds) else None)"

definition plain_int :: "string \<Rightarrow> int option" where
  "plain_int s =
     (case s of
        [] \<Rightarrow> None
      | c # ds \<Rightarrow>
          if c = CHR ''-'' then map_option uminus (unsigned_int ds)
          else unsigned_int (c # ds))"

text \<open>The characters that text which SQLite may read as a number consists of.\<close>

definition is_space :: "char \<Rightarrow> bool" where
  "is_space c = (c \<in> set [CHR '' '', CHR 0x09, CHR 0x0A, CHR 0x0B, CHR 0x0C, CHR 0x0D])"

definition numeric_char :: "char \<Rightarrow> bool" where
  "numeric_char c = (is_digit c \<or> is_space c \<or> c \<in> set ''+-.eE'' \<or> c = CHR 0x00)"

datatype numeric_text = IntegerText int | OtherText | Unread

definition affinity_numeric :: "string \<Rightarrow> numeric_text" where
  "affinity_numeric s =
     (case plain_int s of
        Some n \<Rightarrow> IntegerText n
      | None \<Rightarrow> if list_all numeric_char s then Unread else OtherText)"

text \<open>The test that \<open>column = ?\<close> makes on the column's integer when the text \<open>s\<close> is
  bound to \<open>?\<close>.\<close>

definition where_eq :: "string \<Rightarrow> (int \<Rightarrow> bool) option" where
  "where_eq s =
     (case affinity_numeric s of
        IntegerText n \<Rightarrow> Some (\<lambda>k. k = n)
      | OtherText \<Rightarrow> Some (\<lambda>k. False)
      | Unread \<Rightarrow> None)"

subsection \<open>The interpolated statement\<close>

text \<open>
  The insecure listing builds its statement by interpolation,
  \<open>SELECT * FROM posts WHERE user_id = ${userId}\<close>, so the text of \<open>userId\<close> is SQL source,
  read by SQLite's tokenizer and parser. The model reads the statements whose right-hand
  side is an integer literal under an optional unary sign, with the tokenizer's white
  space (space, tab, line feed, form feed, carriage return; not the vertical tab, which
  is an illegal token) around the tokens. Any other statement text is outside the model:
  \<open>prepare_all\<close> is \<open>None\<close> there, which says nothing about what SQLite does with it.
\<close>

fun strip_prefix :: "string \<Rightarrow> string \<Rightarrow> string option" where
  "strip_prefix [] s = Some s"
| "strip_prefix (p # ps) [] = None"
| "strip_prefix (p # ps) (c # cs) = (if p = c then strip_prefix ps cs else None)"

definition is_sql_space :: "char \<Rightarrow> bool" where
  "is_sql_space c = (c \<in> set [CHR '' '', CHR 0x09, CHR 0x0A, CHR 0x0C, CHR 0x0D])"

definition sql_trim :: "string \<Rightarrow> string" where
  "sql_trim s = rev (dropWhile is_sql_space (rev (dropWhile is_sql_space s)))"

definition sql_signed_literal :: "string \<Rightarrow> int option" where
  "sql_signed_literal e =
     (case dropWhile is_sql_space e of
        [] \<Rightarrow> None
      | c # r \<Rightarrow>
          if c = CHR ''-'' then map_option uminus (unsigned_int (sql_trim r))
          else if c = CHR ''+'' then unsigned_int (sql_trim r)
          else unsigned_int (sql_trim (c # r)))"

definition prepare_all :: "db \<Rightarrow> string \<Rightarrow> json list option" where
  "prepare_all d sql =
     (case strip_prefix ''SELECT * FROM posts WHERE user_id = '' sql of
        None \<Rightarrow> None
      | Some e \<Rightarrow>
          (case sql_signed_literal e of
             None \<Rightarrow> None
           | Some n \<Rightarrow> Some (map posts_star (filter (\<lambda>r. posts_user_id r = n) (posts d)))))"

subsection \<open>The routes\<close>

record register_body =
  username :: string
  password :: string

record post_body =
  userId :: int
  content :: string

text \<open>\<open>GET /user/:id\<close>; \<open>None\<close> where the text of \<open>:id\<close> is \<open>Unread\<close>.\<close>

definition get_user :: "db \<Rightarrow> string \<Rightarrow> response option" where
  "get_user d ident =
     map_option
       (\<lambda>hit. let user = stmt_get (map users_star (filter (\<lambda>r. hit (users_id r)) (users d)))
              in res_json 200 user)
       (where_eq ident)"

text \<open>\<open>GET /user/:id/secure\<close>: \<open>authMiddleware\<close> first, the handler after \<open>next()\<close>.\<close>

definition get_user_secure :: "db \<Rightarrow> headers \<Rightarrow> string \<Rightarrow> response option" where
  "get_user_secure d h ident =
     (case authMiddleware h of
        Send r \<Rightarrow> Some r
      | Next \<Rightarrow>
          map_option
            (\<lambda>hit. let user = stmt_get (map users_id_username
                                 (filter (\<lambda>r. hit (users_id r)) (users d)))
                   in res_json 200 user)
            (where_eq ident))"

text \<open>\<open>POST /register/insecure\<close>\<close>

definition register_insecure :: "db \<Rightarrow> register_body \<Rightarrow> db \<times> response" where
  "register_insecure d b =
     (case insert_user d (username b) (password b) of
        Inr d' \<Rightarrow> (d', res_json 200 (Some success_true))
      | Inl error \<Rightarrow> (d, res_json 400 (Some (JObj [(''error'', JStr (message error))]))))"

text \<open>\<open>POST /register/secure\<close>. \<open>bcrypt_hash\<close> stands for \<open>bcrypt.hash\<close>: the string it
  resolves to for a password and a number of rounds (the salt it draws is its own).\<close>

definition register_secure ::
    "(string \<Rightarrow> nat \<Rightarrow> string) \<Rightarrow> db \<Rightarrow> register_body \<Rightarrow> db \<times> response" where
  "register_secure bcrypt_hash d b =
     (let hashedPassword = bcrypt_hash (password b) 10 in
      case insert_user d (username b) hashedPassword of
        Inr d' \<Rightarrow> (d', res_json 200 (Some success_true))
      | Inl error \<Rightarrow> (d, res_json 400 (Some (JObj [(''error'', JStr (message error))]))))"

text \<open>\<open>GET /posts/insecure\<close>; \<open>None\<close> where the statement is outside the model.\<close>

definition get_posts_insecure :: "db \<Rightarrow> string \<Rightarrow> response option" where
  "get_posts_insecure d uid =
     map_option (\<lambda>posts. res_json 200 (Some (JArr posts)))
       (prepare_all d (''SELECT * FROM posts WHERE user_id = '' @ uid))"

text \<open>\<open>GET /posts/secure\<close>; \<open>None\<close> where the text of \<open>userId\<close> is \<open>Unread\<close>.\<close>

definition get_posts_secure :: "db \<Rightarrow> string \<Rightarrow> response option" where
  "get_posts_secure d uid =
     map_option
       (\<lambda>hit. let posts = map posts_star (filter (\<lambda>r. hit (posts_user_id r)) (posts d))
              in res_json 200 (Some (JArr posts)))
       (where_eq uid)"

text \<open>\<open>POST /post/insecure\<close>: no \<open>try\<close> around \<open>run\<close>.\<close>

definition create_post_insecure :: "db \<Rightarrow> post_body \<Rightarrow> db \<times> response" where
  "create_post_insecure d b =
     (case insert_post d (userId b) (content b) of
        Inr d' \<Rightarrow> (d', res_json 200 (Some success_true))
      | Inl error \<Rightarrow> (d, uncaught))"

text \<open>\<open>POST /post/secure\<close>. \<open>xss\<close> stands for the function the xss package exports.\<close>

definition create_post_secure :: "(string \<Rightarrow> string) \<Rightarrow> db \<Rightarrow> post_body \<Rightarrow> db \<times> response" where
  "create_post_secure xss d b =
     (let sanitizedContent = xss (content b) in
      case insert_post d (userId b) sanitizedContent of
        Inr d' \<Rightarrow> (d', res_json 200 (Some success_true))
      | Inl error \<Rightarrow> (d, uncaught))"

subsection \<open>Requests in sequence\<close>

text \<open>
  The eight routes that \<open>app.get\<close> and \<open>app.post\<close> register. Each call of \<open>bcrypt.hash\<close>
  draws a salt of its own, so a secure registration carries the function that call
  realises.
\<close>

datatype request =
    GetUser string
  | GetUserSecure headers string
  | RegisterInsecure register_body
  | RegisterSecure "string \<Rightarrow> nat \<Rightarrow> string" register_body
  | GetPostsInsecure string
  | GetPostsSecure string
  | CreatePostInsecure post_body
  | CreatePostSecure post_body

text \<open>The store after a request has been served; the four GET routes only read.\<close>

fun serve :: "(string \<Rightarrow> string) \<Rightarrow> db \<Rightarrow> request \<Rightarrow> db" where
  "serve xss d (RegisterInsecure b) = fst (register_insecure d b)"
| "serve xss d (RegisterSecure bcrypt_hash b) = fst (register_secure bcrypt_hash d b)"
| "serve xss d (CreatePostInsecure b) = fst (create_post_insecure d b)"
| "serve xss d (CreatePostSecure b) = fst (create_post_secure xss d b)"
| "serve xss d _ = d"

definition serve_all :: "(string \<Rightarrow> string) \<Rightarrow> db \<Rightarrow> request list \<Rightarrow> db" where
  "serve_all xss d rs = foldl (serve xss) d rs"

text \<open>The store right after the two \<open>CREATE TABLE IF NOT EXISTS\<close> on a new file.\<close>

definition fresh :: db where
  "fresh = \<lparr>users = [], posts = []\<rparr>"

text \<open>
  A well-formed decimal integer numeral, in the words of the claim on the two listings:
  an optional minus sign and then one or more decimal digits. This definition follows
  the claim, not the source; \<open>sql_signed_literal\<close> and \<open>affinity_numeric\<close> are the
  source's two readings of such a text.
\<close>

definition decimal_numeral :: "string \<Rightarrow> bool" where
  "decimal_numeral s =
     (case s of
        [] \<Rightarrow> False
      | c # ds \<Rightarrow> if c = CHR ''-'' then ds \<noteq> [] \<and> list_all is_digit ds
                 else list_all is_digit (c # ds))"

section \<open>Properties\<close>

subsection \<open>C1: the gate\<close>

lemma authMiddleware_next_iff:
  "authMiddleware h = Next \<longleftrightarrow> authorization h = Some ''Bearer valid_token''"
  by (simp add: authMiddleware_def)

text \<open>
  C1, as stated, asks for the body \<open>{ "error": "Unauthorized" }\<close> on rejection. The code
  sends another message: a request without the header is rejected with a body that is
  not the one the claim names.
\<close>

theorem C1_counterexample:
  "authMiddleware \<lparr>authorization = None\<rparr>
     \<noteq> Send \<lparr>status = 401, body = JsonBody (JObj [(''error'', JStr ''Unauthorized'')])\<rparr>"
  by (simp add: authMiddleware_def res_json_def nao_autorizado_def)

text \<open>
  C1, amended: the gate admits the request (calls \<open>next\<close>) if and only if the
  Authorization header is exactly \<open>Bearer valid_token\<close>; for every other value, and when
  the header is absent, it sends status 401 with the JSON body whose \<open>error\<close> field is the
  message of the source (\<open>nao_autorizado\<close>), and the wrapped handler does not run: the
  response of the guarded route is the rejection whatever the handler would have sent.
\<close>

theorem C1_gate:
  "(authMiddleware h = Next \<longleftrightarrow> authorization h = Some ''Bearer valid_token'') \<and>
   (authorization h \<noteq> Some ''Bearer valid_token'' \<longrightarrow>
      authMiddleware h
        = Send \<lparr>status = 401, body = JsonBody (JObj [(''error'', JStr nao_autorizado)])\<rparr> \<and>
      (\<forall>handler. guarded h handler
        = \<lparr>status = 401, body = JsonBody (JObj [(''error'', JStr nao_autorizado)])\<rparr>)) \<and>
   (authorization h = Some ''Bearer valid_token'' \<longrightarrow> (\<forall>handler. guarded h handler = handler))"
  by (simp add: authMiddleware_def guarded_def res_json_def)

theorem C1_gate_witness:
  "authMiddleware \<lparr>authorization = Some ''Bearer valid_token''\<rparr> = Next \<and>
   authMiddleware \<lparr>authorization = Some ''Bearer  valid_token''\<rparr>
     = Send \<lparr>status = 401, body = JsonBody (JObj [(''error'', JStr nao_autorizado)])\<rparr> \<and>
   authMiddleware \<lparr>authorization = None\<rparr>
     = Send \<lparr>status = 401, body = JsonBody (JObj [(''error'', JStr nao_autorizado)])\<rparr>"
  using C1_gate [of "\<lparr>authorization = Some ''Bearer valid_token''\<rparr>"]
        C1_gate [of "\<lparr>authorization = Some ''Bearer  valid_token''\<rparr>"]
        C1_gate [of "\<lparr>authorization = None\<rparr>"]
  by simp

subsection \<open>What the statements do to the store\<close>

lemma insert_user_users:
  "insert_user d u p = Inr d' \<Longrightarrow>
     users d' = users d @ [\<lparr>users_id = next_rowid (map users_id (users d)),
                            users_username = u, users_password = p\<rparr>] \<and>
     posts d' = posts d"
  by (auto simp: insert_user_def split: if_splits)

lemma insert_post_posts:
  "insert_post d u c = Inr d' \<Longrightarrow>
     posts d' = posts d @ [\<lparr>posts_id = next_rowid (map posts_id (posts d)),
                            posts_user_id = u, posts_content = c\<rparr>] \<and>
     users d' = users d"
  by (auto simp: insert_post_def split: if_splits)

lemma register_insecure_ok:
  "register_insecure d b = (d', r) \<Longrightarrow> status r = 200 \<Longrightarrow>
     insert_user d (username b) (password b) = Inr d'"
  by (auto simp: register_insecure_def res_json_def split: sum.splits)

lemma register_secure_ok:
  "register_secure H d b = (d', r) \<Longrightarrow> status r = 200 \<Longrightarrow>
     insert_user d (username b) (H (password b) 10) = Inr d'"
  by (auto simp: register_secure_def res_json_def Let_def split: sum.splits)

lemma create_post_insecure_ok:
  "create_post_insecure d b = (d', r) \<Longrightarrow> status r = 200 \<Longrightarrow>
     insert_post d (userId b) (content b) = Inr d'"
  by (auto simp: create_post_insecure_def res_json_def uncaught_def split: sum.splits)

text \<open>No route deletes or rewrites a row: both tables only grow.\<close>

lemma serve_users_grow: "set (users d) \<subseteq> set (users (serve xss d r))"
  by (cases r)
     (auto simp: register_insecure_def register_secure_def create_post_insecure_def
        create_post_secure_def Let_def dest: insert_user_users insert_post_posts
        split: sum.splits)

lemma serve_posts_grow: "set (posts d) \<subseteq> set (posts (serve xss d r))"
  by (cases r)
     (auto simp: register_insecure_def register_secure_def create_post_insecure_def
        create_post_secure_def Let_def dest: insert_user_users insert_post_posts
        split: sum.splits)

lemma serve_all_users_grow: "set (users d) \<subseteq> set (users (serve_all xss d rs))"
  unfolding serve_all_def
proof (induction rs arbitrary: d)
  case Nil
  show ?case by simp
next
  case (Cons r rs)
  have "set (users d) \<subseteq> set (users (serve xss d r))" by (rule serve_users_grow)
  also have "\<dots> \<subseteq> set (users (foldl (serve xss) (serve xss d r) rs))" by (rule Cons.IH)
  finally show ?case by simp
qed

lemma serve_all_posts_grow: "set (posts d) \<subseteq> set (posts (serve_all xss d rs))"
  unfolding serve_all_def
proof (induction rs arbitrary: d)
  case Nil
  show ?case by simp
next
  case (Cons r rs)
  have "set (posts d) \<subseteq> set (posts (serve xss d r))" by (rule serve_posts_grow)
  also have "\<dots> \<subseteq> set (posts (foldl (serve xss) (serve xss d r) rs))" by (rule Cons.IH)
  finally show ?case by simp
qed

text \<open>A new id is above every id of the table, so the ids of a table that the routes
  have filled from the empty store are distinct.\<close>

lemma fold_max_bounds: "a \<le> fold max ids a \<and> (\<forall>x\<in>set ids. x \<le> fold max ids (a::int))"
proof (induction ids arbitrary: a)
  case Nil
  show ?case by simp
next
  case (Cons y ys)
  from Cons.IH [of "max y a"] show ?case by auto
qed

lemma next_rowid_new: "next_rowid ids \<notin> set ids"
  using fold_max_bounds [of 0 ids] by (auto simp: next_rowid_def)

lemma serve_user_ids_distinct:
  assumes "distinct (map users_id (users d))"
  shows "distinct (map users_id (users (serve xss d r)))"
proof -
  have ins: "distinct (map users_id (users d'))" if "insert_user d u p = Inr d'" for u p d'
    using insert_user_users [OF that] assms next_rowid_new [of "map users_id (users d)"]
    by auto
  have post: "users d' = users d" if "insert_post d u c = Inr d'" for u c d'
    using insert_post_posts [OF that] by simp
  show ?thesis
    using assms
    by (cases r)
       (auto simp: register_insecure_def register_secure_def create_post_insecure_def
          create_post_secure_def Let_def ins post split: sum.splits)
qed

lemma served_user_ids_distinct: "distinct (map users_id (users (serve_all xss fresh rs)))"
proof -
  have "distinct (map users_id (users d)) \<Longrightarrow>
        distinct (map users_id (users (foldl (serve xss) d rs)))" for d
    by (induction rs arbitrary: d) (simp_all add: serve_user_ids_distinct)
  then show ?thesis by (simp add: serve_all_def fresh_def)
qed

text \<open>\<open>Statement.get\<close> over a filtered table.\<close>

lemma stmt_get_first:
  assumes "x \<in> set xs" and "P x"
  shows "\<exists>y. y \<in> set xs \<and> P y \<and> stmt_get (map f (filter P xs)) = Some (f y)"
proof (cases "filter P xs")
  case Nil
  with assms show ?thesis by (auto simp: filter_empty_conv)
next
  case (Cons y ys)
  have "y \<in> set (filter P xs)" unfolding Cons by simp
  then have "y \<in> set xs" "P y" by simp_all
  with Cons show ?thesis by auto
qed

lemma stmt_get_none:
  assumes "\<forall>x\<in>set xs. \<not> P x"
  shows "stmt_get (map f (filter P xs)) = None"
proof -
  from assms have "filter P xs = []" by (simp add: filter_empty_conv)
  then show ?thesis by simp
qed

text \<open>The secure lookup is its handler behind the gate.\<close>

lemma get_user_secure_guarded:
  assumes "where_eq ident = Some hit"
  shows "get_user_secure d h ident
           = Some (guarded h (res_json 200 (stmt_get (map users_id_username
                     (filter (\<lambda>r. hit (users_id r)) (users d))))))"
  using assms by (simp add: get_user_secure_def guarded_def split: gate.splits)

lemma get_user_secure_rejected:
  assumes "authorization h \<noteq> Some ''Bearer valid_token''"
  shows "get_user_secure d h ident
           = Some \<lparr>status = 401, body = JsonBody (JObj [(''error'', JStr nao_autorizado)])\<rparr>"
  using assms by (simp add: get_user_secure_def authMiddleware_def res_json_def)

text \<open>The two readings of a numeral.\<close>

lemma where_eq_plain: "plain_int s = Some n \<Longrightarrow> where_eq s = Some (\<lambda>k. k = n)"
  by (simp add: where_eq_def affinity_numeric_def)

lemma where_eq_other: "affinity_numeric s = OtherText \<Longrightarrow> where_eq s = Some (\<lambda>k. False)"
  by (simp add: where_eq_def)

lemma strip_prefix_append: "strip_prefix p (p @ s) = Some s"
  by (induction p) simp_all

lemma prepare_all_literal:
  assumes "sql_signed_literal e = Some n"
  shows "prepare_all d (''SELECT * FROM posts WHERE user_id = '' @ e)
           = Some (map posts_star (filter (\<lambda>r. posts_user_id r = n) (posts d)))"
  unfolding prepare_all_def strip_prefix_append using assms by simp

lemma digit_not_sql_space: "is_digit c \<Longrightarrow> \<not> is_sql_space c"
  by (auto simp: is_digit_def is_sql_space_def)

lemma dropWhile_sql_space_digits:
  "list_all is_digit ds \<Longrightarrow> dropWhile is_sql_space ds = ds"
  by (cases ds) (simp_all add: digit_not_sql_space)

lemma sql_trim_digits:
  assumes "list_all is_digit ds"
  shows "sql_trim ds = ds"
proof -
  from assms have "list_all is_digit (rev ds)" by (simp add: list_all_iff)
  then have "dropWhile is_sql_space (rev ds) = rev ds" by (rule dropWhile_sql_space_digits)
  with dropWhile_sql_space_digits [OF assms] show ?thesis by (simp add: sql_trim_def)
qed

lemma numeral_same_value:
  assumes "decimal_numeral s"
  shows "\<exists>n. sql_signed_literal s = Some n \<and> plain_int s = Some n"
proof (cases s)
  case Nil
  with assms show ?thesis by (simp add: decimal_numeral_def)
next
  case (Cons c ds)
  show ?thesis
  proof (cases "c = CHR ''-''")
    case True
    with assms Cons have ds: "ds \<noteq> []" "list_all is_digit ds"
      by (simp_all add: decimal_numeral_def)
    have "\<not> is_sql_space CHR ''-''" by (simp add: is_sql_space_def)
    with Cons True ds show ?thesis
      by (simp add: sql_signed_literal_def plain_int_def sql_trim_digits unsigned_int_def)
  next
    case False
    with assms Cons have all: "list_all is_digit (c # ds)"
      by (simp add: decimal_numeral_def)
    then have c: "\<not> is_sql_space c" "c \<noteq> CHR ''+''"
      by (auto simp: digit_not_sql_space is_digit_def)
    from all have "sql_trim (c # ds) = c # ds" by (rule sql_trim_digits)
    with Cons False c all show ?thesis
      by (simp add: sql_signed_literal_def plain_int_def unsigned_int_def)
  qed
qed

lemma eval_plain_int: "plain_int ''1'' = Some 1" "plain_int ''2'' = Some 2"
  by (simp_all add: plain_int_def unsigned_int_def is_digit_def digits_value_def)

lemma eval_sql_signed_literal: "sql_signed_literal ''1'' = Some 1"
  by (simp add: sql_signed_literal_def sql_trim_def is_sql_space_def unsigned_int_def
        is_digit_def digits_value_def)

subsection \<open>C2 and C3: what the code fixes of them\<close>

text \<open>
  The secure registration stores whatever \<open>bcrypt.hash(password, 10)\<close> resolves to, and
  the secure post creation stores whatever \<open>xss(content)\<close> returns. What those two
  functions compute is decided in the packages, not in index.js.
\<close>

lemma register_secure_stores_hash:
  assumes "register_secure bcrypt_hash d b = (d', r)" and "status r = 200"
  shows "\<exists>i. users d' = users d @
           [\<lparr>users_id = i, users_username = username b,
             users_password = bcrypt_hash (password b) 10\<rparr>]"
  using register_secure_ok [OF assms] by (auto dest: insert_user_users)

lemma create_post_secure_stores_sanitized:
  assumes "create_post_secure xss d b = (d', r)" and "status r = 200"
  shows "\<exists>i. posts d' = posts d @
           [\<lparr>posts_id = i, posts_user_id = userId b, posts_content = xss (content b)\<rparr>]"
  using assms
  by (auto simp: create_post_secure_def Let_def res_json_def uncaught_def
        dest: insert_post_posts split: sum.splits)

subsection \<open>C4: a username registers once\<close>

lemma register_taken:
  assumes "u \<in> set (map users_username (users d))" and "username b = u"
  shows "register_insecure d b
           = (d, \<lparr>status = 400, body = JsonBody (JObj [(''error'',
                  JStr ''UNIQUE constraint failed: users.username'')])\<rparr>) \<and>
         register_secure H d b
           = (d, \<lparr>status = 400, body = JsonBody (JObj [(''error'',
                  JStr ''UNIQUE constraint failed: users.username'')])\<rparr>)"
  using assms
  by (simp add: register_insecure_def register_secure_def insert_user_def res_json_def)

text \<open>
  C4. Let a registration of a username succeed on either registration route (status
  200), and let any requests be served afterwards. Then a further registration of the
  same username, on \<open>/register/insecure\<close> as on \<open>/register/secure\<close> and with any password,
  fails on the UNIQUE constraint of \<open>users.username\<close>: the response is status 400 with
  the JSON body whose \<open>error\<close> field is the message of the SqliteError, and the store is
  left as it was.
\<close>

theorem C4_duplicate_username:
  assumes first: "register_insecure d0 b0 = (d1, r1) \<or> register_secure H0 d0 b0 = (d1, r1)"
    and ok: "status r1 = 200"
    and later: "d2 = serve_all xss d1 rs"
    and same: "username b = username b0"
  shows "register_insecure d2 b
           = (d2, \<lparr>status = 400, body = JsonBody (JObj [(''error'',
                  JStr ''UNIQUE constraint failed: users.username'')])\<rparr>) \<and>
         register_secure H d2 b
           = (d2, \<lparr>status = 400, body = JsonBody (JObj [(''error'',
                  JStr ''UNIQUE constraint failed: users.username'')])\<rparr>)"
proof -
  from first ok obtain p where "insert_user d0 (username b0) p = Inr d1"
    using register_insecure_ok register_secure_ok by blast
  then have "username b0 \<in> set (map users_username (users d1))"
    by (auto dest: insert_user_users)
  then have "username b0 \<in> set (map users_username (users d2))"
    using serve_all_users_grow [of d1 xss rs] later by auto
  then show ?thesis
    using register_taken [OF _ same, of d2 H] by simp
qed

text \<open>Alice registers, a post is created, Alice registers again on each route.\<close>

theorem C4_duplicate_username_witness:
  "register_insecure
     \<lparr>users = [\<lparr>users_id = 1, users_username = ''alice'', users_password = ''pw123''\<rparr>],
      posts = [\<lparr>posts_id = 1, posts_user_id = 1, posts_content = ''hello''\<rparr>]\<rparr>
     \<lparr>username = ''alice'', password = ''other''\<rparr>
   = (\<lparr>users = [\<lparr>users_id = 1, users_username = ''alice'', users_password = ''pw123''\<rparr>],
       posts = [\<lparr>posts_id = 1, posts_user_id = 1, posts_content = ''hello''\<rparr>]\<rparr>,
      \<lparr>status = 400, body = JsonBody (JObj [(''error'',
          JStr ''UNIQUE constraint failed: users.username'')])\<rparr>) \<and>
   register_secure (\<lambda>p n. ''$2b$10$'' @ p)
     \<lparr>users = [\<lparr>users_id = 1, users_username = ''alice'', users_password = ''pw123''\<rparr>],
      posts = [\<lparr>posts_id = 1, posts_user_id = 1, posts_content = ''hello''\<rparr>]\<rparr>
     \<lparr>username = ''alice'', password = ''other''\<rparr>
   = (\<lparr>users = [\<lparr>users_id = 1, users_username = ''alice'', users_password = ''pw123''\<rparr>],
       posts = [\<lparr>posts_id = 1, posts_user_id = 1, posts_content = ''hello''\<rparr>]\<rparr>,
      \<lparr>status = 400, body = JsonBody (JObj [(''error'',
          JStr ''UNIQUE constraint failed: users.username'')])\<rparr>)"
proof -
  let ?d1 = "\<lparr>users = [\<lparr>users_id = 1, users_username = ''alice'', users_password = ''pw123''\<rparr>],
              posts = []\<rparr>"
  let ?r1 = "\<lparr>status = 200, body = JsonBody (JObj [(''success'', JBool True)])\<rparr>"
  let ?d2 = "\<lparr>users = [\<lparr>users_id = 1, users_username = ''alice'', users_password = ''pw123''\<rparr>],
              posts = [\<lparr>posts_id = 1, posts_user_id = 1, posts_content = ''hello''\<rparr>]\<rparr>"
  have first: "register_insecure fresh \<lparr>username = ''alice'', password = ''pw123''\<rparr>
                 = (?d1, ?r1)
               \<or> register_secure (\<lambda>p n. ''$2b$10$'' @ p) fresh
                   \<lparr>username = ''alice'', password = ''pw123''\<rparr> = (?d1, ?r1)"
    by (simp add: register_insecure_def insert_user_def fresh_def next_rowid_def res_json_def
          success_true_def)
  have ok: "status ?r1 = 200" by simp
  have later: "?d2 = serve_all id ?d1 [CreatePostInsecure \<lparr>userId = 1, content = ''hello''\<rparr>]"
    by (simp add: serve_all_def create_post_insecure_def insert_post_def next_rowid_def)
  have same: "username \<lparr>username = ''alice'', password = ''other''\<rparr>
                = username \<lparr>username = ''alice'', password = ''pw123''\<rparr>"
    by simp
  show ?thesis
    by (rule C4_duplicate_username [OF first ok later same])
qed

subsection \<open>C5: the insecure registration stores the password as given\<close>

text \<open>
  C5. When \<open>POST /register/insecure\<close> succeeds, the users table has gained exactly one
  row, whose username and password columns hold the request's \<open>username\<close> and \<open>password\<close>
  strings themselves: the password is stored with no transformation.
\<close>

theorem C5_insecure_stores_plaintext:
  assumes "register_insecure d b = (d', r)" and "status r = 200"
  shows "\<exists>i. users d' = users d @
           [\<lparr>users_id = i, users_username = username b, users_password = password b\<rparr>]"
  using register_insecure_ok [OF assms] by (auto dest: insert_user_users)

theorem C5_insecure_stores_plaintext_witness:
  "\<exists>i. users \<lparr>users = [\<lparr>users_id = 1, users_username = ''alice'', users_password = ''pw123''\<rparr>],
              posts = []\<rparr>
        = users fresh @
          [\<lparr>users_id = i, users_username = username \<lparr>username = ''alice'', password = ''pw123''\<rparr>,
            users_password = password \<lparr>username = ''alice'', password = ''pw123''\<rparr>\<rparr>]"
proof -
  have reg: "register_insecure fresh \<lparr>username = ''alice'', password = ''pw123''\<rparr>
      = (\<lparr>users = [\<lparr>users_id = 1, users_username = ''alice'', users_password = ''pw123''\<rparr>],
          posts = []\<rparr>,
         \<lparr>status = 200, body = JsonBody (JObj [(''success'', JBool True)])\<rparr>)"
    by (simp add: register_insecure_def insert_user_def fresh_def next_rowid_def res_json_def
          success_true_def)
  show ?thesis
    by (rule C5_insecure_stores_plaintext [OF reg]) simp
qed

subsection \<open>C6: the secure lookup returns id and username only\<close>

text \<open>
  C6. If the users table has a row whose id is the integer that the path parameter, a
  decimal numeral, denotes, then \<open>GET /user/:id/secure\<close> with the header
  \<open>Authorization: Bearer valid_token\<close> answers 200 with a JSON object of exactly two
  fields, in this order: \<open>id\<close>, that integer, and \<open>username\<close>, the username column of a
  row of the table with that id. There is no \<open>password\<close> field. Where the ids of the
  table are distinct, as they are in every store the routes have filled, the username is
  the one of that very row.
\<close>

theorem C6_secure_user_fields:
  assumes "row \<in> set (users d)" and "plain_int ident = Some (users_id row)"
  shows "(\<exists>y\<in>set (users d). users_id y = users_id row \<and>
            get_user_secure d \<lparr>authorization = Some ''Bearer valid_token''\<rparr> ident
              = Some \<lparr>status = 200,
                   body = JsonBody (JObj [(''id'', JNum (users_id row)),
                                          (''username'', JStr (users_username y))])\<rparr>) \<and>
         (distinct (map users_id (users d)) \<longrightarrow>
            get_user_secure d \<lparr>authorization = Some ''Bearer valid_token''\<rparr> ident
              = Some \<lparr>status = 200,
                   body = JsonBody (JObj [(''id'', JNum (users_id row)),
                                          (''username'', JStr (users_username row))])\<rparr>)"
proof -
  let ?hit = "\<lambda>r. users_id r = users_id row"
  from stmt_get_first [OF assms(1), of ?hit users_id_username]
  obtain y where y: "y \<in> set (users d)" "users_id y = users_id row"
    "stmt_get (map users_id_username (filter ?hit (users d))) = Some (users_id_username y)"
    by auto
  have resp: "get_user_secure d \<lparr>authorization = Some ''Bearer valid_token''\<rparr> ident
      = Some \<lparr>status = 200,
           body = JsonBody (JObj [(''id'', JNum (users_id row)),
                                  (''username'', JStr (users_username y))])\<rparr>"
    using y(2,3)
    by (simp add: get_user_secure_def authMiddleware_def where_eq_plain [OF assms(2)]
          res_json_def users_id_username_def)
  have "y = row" if "distinct (map users_id (users d))"
    using that y(1,2) assms(1) by (meson distinct_map inj_onD)
  with resp y(1,2) show ?thesis by blast
qed

text \<open>Alice, whose password is not her username, is looked up by her id.\<close>

theorem C6_secure_user_fields_witness:
  "get_user_secure
      \<lparr>users = [\<lparr>users_id = 1, users_username = ''alice'', users_password = ''pw123''\<rparr>],
       posts = []\<rparr>
      \<lparr>authorization = Some ''Bearer valid_token''\<rparr> ''1''
    = Some \<lparr>status = 200,
         body = JsonBody (JObj [(''id'', JNum 1), (''username'', JStr ''alice'')])\<rparr>"
  using C6_secure_user_fields
     [of "\<lparr>users_id = 1, users_username = ''alice'', users_password = ''pw123''\<rparr>"
         "\<lparr>users = [\<lparr>users_id = 1, users_username = ''alice'', users_password = ''pw123''\<rparr>],
           posts = []\<rparr>" "''1''"]
  by (simp add: eval_plain_int)

subsection \<open>C7: the insecure post path keeps the content\<close>

text \<open>
  C7. When \<open>POST /post/insecure\<close> succeeds for a body \<open>{userId, content}\<close>, the posts
  table has gained one row, for that \<open>userId\<close>, whose content column is the request's
  \<open>content\<close>, unchanged. After any further
  requests, \<open>GET /posts/insecure?userId=q\<close>, for a \<open>q\<close> that is an integer literal denoting
  that \<open>userId\<close>, answers 200 with a JSON array that has the row object of that post: its
  \<open>user_id\<close> is that owner and its \<open>content\<close> is that same string, markup included.
\<close>

theorem C7_insecure_post_round_trip:
  assumes created: "create_post_insecure d0 b = (d1, r1)" and ok: "status r1 = 200"
    and later: "d2 = serve_all xss d1 rs"
    and owner: "sql_signed_literal q = Some (userId b)"
  shows "posts d1 = posts d0 @
            [\<lparr>posts_id = next_rowid (map posts_id (posts d0)),
              posts_user_id = userId b, posts_content = content b\<rparr>] \<and>
         (\<exists>rows. get_posts_insecure d2 q = Some \<lparr>status = 200, body = JsonBody (JArr rows)\<rparr> \<and>
            JObj [(''id'', JNum (next_rowid (map posts_id (posts d0)))),
                  (''user_id'', JNum (userId b)),
                  (''content'', JStr (content b))] \<in> set rows)"
proof -
  let ?row = "\<lparr>posts_id = next_rowid (map posts_id (posts d0)),
               posts_user_id = userId b, posts_content = content b\<rparr>"
  from create_post_insecure_ok [OF created ok]
  have d1: "posts d1 = posts d0 @ [?row]" by (auto dest: insert_post_posts)
  then have "?row \<in> set (posts d1)" by simp
  with later have "?row \<in> set (posts d2)"
    using serve_all_posts_grow [of d1 xss rs] by auto
  then have "posts_star ?row
      \<in> set (map posts_star (filter (\<lambda>r. posts_user_id r = userId b) (posts d2)))"
    by auto
  moreover have "posts_star ?row
      = JObj [(''id'', JNum (next_rowid (map posts_id (posts d0)))),
              (''user_id'', JNum (userId b)), (''content'', JStr (content b))]"
    by (simp add: posts_star_def)
  moreover have "get_posts_insecure d2 q
      = Some \<lparr>status = 200, body = JsonBody (JArr
          (map posts_star (filter (\<lambda>r. posts_user_id r = userId b) (posts d2))))\<rparr>"
    unfolding get_posts_insecure_def prepare_all_literal [OF owner]
    by (simp add: res_json_def)
  ultimately have "\<exists>rows. get_posts_insecure d2 q
        = Some \<lparr>status = 200, body = JsonBody (JArr rows)\<rparr> \<and>
      JObj [(''id'', JNum (next_rowid (map posts_id (posts d0)))),
            (''user_id'', JNum (userId b)),
            (''content'', JStr (content b))] \<in> set rows"
    by metis
  with d1 show ?thesis by blast
qed

text \<open>The scenario of the specification, after Alice has registered as user 1: an \<open>img\<close>
  tag with an \<open>onerror\<close> handler is posted, a second user registers, and the listing of
  user 1 has the tag as it was sent.\<close>

theorem C7_insecure_post_round_trip_witness:
  "(\<exists>rows. get_posts_insecure
        \<lparr>users = [\<lparr>users_id = 1, users_username = ''alice'', users_password = ''pw123''\<rparr>,
                  \<lparr>users_id = 2, users_username = ''bob'', users_password = ''hunter2''\<rparr>],
         posts = [\<lparr>posts_id = 1, posts_user_id = 1,
                   posts_content = ''<img src=x onerror=alert(1)>''\<rparr>]\<rparr>
        ''1''
      = Some \<lparr>status = 200, body = JsonBody (JArr rows)\<rparr> \<and>
      JObj [(''id'', JNum 1), (''user_id'', JNum 1),
            (''content'', JStr ''<img src=x onerror=alert(1)>'')] \<in> set rows) \<and>
   get_posts_insecure
      \<lparr>users = [\<lparr>users_id = 1, users_username = ''alice'', users_password = ''pw123''\<rparr>,
                \<lparr>users_id = 2, users_username = ''bob'', users_password = ''hunter2''\<rparr>],
       posts = [\<lparr>posts_id = 1, posts_user_id = 1,
                 posts_content = ''<img src=x onerror=alert(1)>''\<rparr>]\<rparr>
      ''1''
    = Some \<lparr>status = 200, body = JsonBody (JArr
        [JObj [(''id'', JNum 1), (''user_id'', JNum 1),
               (''content'', JStr ''<img src=x onerror=alert(1)>'')]])\<rparr>"
proof -
  let ?b = "\<lparr>userId = 1, content = ''<img src=x onerror=alert(1)>''\<rparr>"
  let ?d0 = "\<lparr>users = [\<lparr>users_id = 1, users_username = ''alice'', users_password = ''pw123''\<rparr>],
              posts = []\<rparr>"
  let ?d1 = "\<lparr>users = [\<lparr>users_id = 1, users_username = ''alice'', users_password = ''pw123''\<rparr>],
              posts = [\<lparr>posts_id = 1, posts_user_id = 1,
                        posts_content = ''<img src=x onerror=alert(1)>''\<rparr>]\<rparr>"
  let ?d2 = "\<lparr>users = [\<lparr>users_id = 1, users_username = ''alice'', users_password = ''pw123''\<rparr>,
                       \<lparr>users_id = 2, users_username = ''bob'', users_password = ''hunter2''\<rparr>],
              posts = [\<lparr>posts_id = 1, posts_user_id = 1,
                        posts_content = ''<img src=x onerror=alert(1)>''\<rparr>]\<rparr>"
  let ?r1 = "\<lparr>status = 200, body = JsonBody (JObj [(''success'', JBool True)])\<rparr>"
  have created: "create_post_insecure ?d0 ?b = (?d1, ?r1)"
    by (simp add: create_post_insecure_def insert_post_def next_rowid_def res_json_def
          success_true_def)
  have ok: "status ?r1 = 200" by simp
  have later: "?d2 = serve_all id ?d1
      [RegisterInsecure \<lparr>username = ''bob'', password = ''hunter2''\<rparr>]"
    by (simp add: serve_all_def register_insecure_def insert_user_def next_rowid_def)
  have owner: "sql_signed_literal ''1'' = Some (userId ?b)"
    by (simp add: eval_sql_signed_literal)
  have listed: "\<exists>rows. get_posts_insecure ?d2 ''1''
        = Some \<lparr>status = 200, body = JsonBody (JArr rows)\<rparr> \<and>
      JObj [(''id'', JNum 1), (''user_id'', JNum 1),
            (''content'', JStr ''<img src=x onerror=alert(1)>'')] \<in> set rows"
    using C7_insecure_post_round_trip [OF created ok later owner]
    by (simp add: next_rowid_def)
  have whole: "get_posts_insecure ?d2 ''1''
      = Some \<lparr>status = 200, body = JsonBody (JArr
          [JObj [(''id'', JNum 1), (''user_id'', JNum 1),
                 (''content'', JStr ''<img src=x onerror=alert(1)>'')]])\<rparr>"
    unfolding get_posts_insecure_def prepare_all_literal [OF eval_sql_signed_literal]
    by (simp add: res_json_def posts_star_def)
  from listed whole show ?thesis by (rule conjI)
qed

subsection \<open>C8: a post needs its user\<close>

text \<open>
  C8, as stated, says that a post whose \<open>userId\<close> matches no user can be created and
  persists. On the store right after start-up, which has no user, \<open>POST /post/insecure\<close>
  and \<open>POST /post/secure\<close> with \<open>userId\<close> 1 are rejected by the FOREIGN KEY clause: the
  routes, which have no \<open>try\<close>, answer 500, and the store has no post.
\<close>

theorem C8_counterexample:
  "create_post_insecure fresh \<lparr>userId = 1, content = ''hello''\<rparr>
     = (\<lparr>users = [], posts = []\<rparr>, \<lparr>status = 500, body = ErrorPage\<rparr>) \<and>
   create_post_secure id fresh \<lparr>userId = 1, content = ''hello''\<rparr>
     = (\<lparr>users = [], posts = []\<rparr>, \<lparr>status = 500, body = ErrorPage\<rparr>)"
  by (simp add: create_post_insecure_def create_post_secure_def insert_post_def fresh_def
        uncaught_def)

text \<open>
  C8, amended: the reference of \<open>posts.user_id\<close> to \<open>users.id\<close> is enforced at the storage
  layer. For every \<open>userId\<close> that is the id of a row of the users table, the two
  post-creation routes succeed: they answer 200 with \<open>{success: true}\<close> and the posts
  table gains one row with that \<open>userId\<close> and the content (raw on the insecure route,
  what \<open>xss\<close> returns on the secure one). For every \<open>userId\<close> that is the id of no user,
  the insertion fails on the FOREIGN KEY constraint: both routes answer 500 and the
  store is left as it was, so no post without a user is ever created.
\<close>

theorem C8_posts_need_their_user:
  "(userId b \<in> set (map users_id (users d)) \<longrightarrow>
      create_post_insecure d b
        = (d\<lparr>posts := posts d @
              [\<lparr>posts_id = next_rowid (map posts_id (posts d)),
                posts_user_id = userId b, posts_content = content b\<rparr>]\<rparr>,
           \<lparr>status = 200, body = JsonBody (JObj [(''success'', JBool True)])\<rparr>) \<and>
      create_post_secure xss d b
        = (d\<lparr>posts := posts d @
              [\<lparr>posts_id = next_rowid (map posts_id (posts d)),
                posts_user_id = userId b, posts_content = xss (content b)\<rparr>]\<rparr>,
           \<lparr>status = 200, body = JsonBody (JObj [(''success'', JBool True)])\<rparr>)) \<and>
   (userId b \<notin> set (map users_id (users d)) \<longrightarrow>
      create_post_insecure d b = (d, \<lparr>status = 500, body = ErrorPage\<rparr>) \<and>
      create_post_secure xss d b = (d, \<lparr>status = 500, body = ErrorPage\<rparr>))"
  by (simp add: create_post_insecure_def create_post_secure_def insert_post_def
        res_json_def success_true_def uncaught_def)

text \<open>With Alice as user 1: a post for user 1 is stored, a post for user 7 is not.\<close>

theorem C8_posts_need_their_user_witness:
  "create_post_insecure
      \<lparr>users = [\<lparr>users_id = 1, users_username = ''alice'', users_password = ''pw123''\<rparr>],
       posts = []\<rparr>
      \<lparr>userId = 1, content = ''hello''\<rparr>
    = (\<lparr>users = [\<lparr>users_id = 1, users_username = ''alice'', users_password = ''pw123''\<rparr>],
        posts = [\<lparr>posts_id = 1, posts_user_id = 1, posts_content = ''hello''\<rparr>]\<rparr>,
       \<lparr>status = 200, body = JsonBody (JObj [(''success'', JBool True)])\<rparr>) \<and>
   create_post_insecure
      \<lparr>users = [\<lparr>users_id = 1, users_username = ''alice'', users_password = ''pw123''\<rparr>],
       posts = []\<rparr>
      \<lparr>userId = 7, content = ''hello''\<rparr>
    = (\<lparr>users = [\<lparr>users_id = 1, users_username = ''alice'', users_password = ''pw123''\<rparr>],
        posts = []\<rparr>,
       \<lparr>status = 500, body = ErrorPage\<rparr>)"
  using C8_posts_need_their_user
     [of "\<lparr>userId = 1, content = ''hello''\<rparr>"
         "\<lparr>users = [\<lparr>users_id = 1, users_username = ''alice'', users_password = ''pw123''\<rparr>],
           posts = []\<rparr>"]
        C8_posts_need_their_user
     [of "\<lparr>userId = 7, content = ''hello''\<rparr>"
         "\<lparr>users = [\<lparr>users_id = 1, users_username = ''alice'', users_password = ''pw123''\<rparr>],
           posts = []\<rparr>"]
  by (simp add: next_rowid_def)

subsection \<open>C9: an unknown id is not an error\<close>

text \<open>
  C9. Let the path parameter be a decimal numeral that denotes the id of no row of the
  users table, or text that is no number at all. Then \<open>GET /user/:id\<close>, and
  \<open>GET /user/:id/secure\<close> under the valid token, answer with status 200 and an empty
  body (\<open>res.json(undefined)\<close>): the lookup that finds nothing is no error.
\<close>

theorem C9_unknown_id_empty_body:
  assumes "(\<exists>n. plain_int ident = Some n \<and> n \<notin> set (map users_id (users d)))
           \<or> affinity_numeric ident = OtherText"
  shows "get_user d ident = Some \<lparr>status = 200, body = NoBody\<rparr> \<and>
         get_user_secure d \<lparr>authorization = Some ''Bearer valid_token''\<rparr> ident
           = Some \<lparr>status = 200, body = NoBody\<rparr>"
proof -
  from assms obtain hit where hit: "where_eq ident = Some hit"
    "\<forall>row\<in>set (users d). \<not> hit (users_id row)"
    using where_eq_plain where_eq_other by fastforce
  show ?thesis
    by (simp add: get_user_def get_user_secure_def authMiddleware_def res_json_def hit(1)
          stmt_get_none [OF hit(2)])
qed

text \<open>Alice is user 1; user 2 and user \<open>abc\<close> are looked up.\<close>

theorem C9_unknown_id_empty_body_witness:
  "get_user \<lparr>users = [\<lparr>users_id = 1, users_username = ''alice'', users_password = ''pw123''\<rparr>],
             posts = []\<rparr> ''2''
     = Some \<lparr>status = 200, body = NoBody\<rparr> \<and>
   get_user_secure
       \<lparr>users = [\<lparr>users_id = 1, users_username = ''alice'', users_password = ''pw123''\<rparr>],
        posts = []\<rparr>
       \<lparr>authorization = Some ''Bearer valid_token''\<rparr> ''2''
     = Some \<lparr>status = 200, body = NoBody\<rparr> \<and>
   get_user \<lparr>users = [\<lparr>users_id = 1, users_username = ''alice'', users_password = ''pw123''\<rparr>],
             posts = []\<rparr> ''abc''
     = Some \<lparr>status = 200, body = NoBody\<rparr>"
proof -
  let ?d = "\<lparr>users = [\<lparr>users_id = 1, users_username = ''alice'', users_password = ''pw123''\<rparr>],
             posts = []\<rparr>"
  have two: "(\<exists>n. plain_int ''2'' = Some n \<and> n \<notin> set (map users_id (users ?d)))
             \<or> affinity_numeric ''2'' = OtherText"
    by (simp add: eval_plain_int)
  have abc: "(\<exists>n. plain_int ''abc'' = Some n \<and> n \<notin> set (map users_id (users ?d)))
             \<or> affinity_numeric ''abc'' = OtherText"
    by (simp add: affinity_numeric_def plain_int_def unsigned_int_def is_digit_def
          numeric_char_def is_space_def)
  from C9_unknown_id_empty_body [OF two] C9_unknown_id_empty_body [OF abc]
  show ?thesis by simp
qed

subsection \<open>C10: the two listings agree on numerals\<close>

text \<open>
  C10. For every \<open>userId\<close> query value that is a well-formed decimal integer numeral, and
  every store, \<open>GET /posts/insecure\<close> (the interpolated statement) and \<open>GET /posts/secure\<close>
  (the statement with a bound parameter) both answer, and they send the same response:
  the same status and the same sequence of posts.
\<close>

theorem C10_numeral_queries_agree:
  assumes "decimal_numeral uid"
  shows "\<exists>r. get_posts_insecure d uid = Some r \<and> get_posts_secure d uid = Some r"
proof -
  from numeral_same_value [OF assms] obtain n where
    n: "sql_signed_literal uid = Some n" "plain_int uid = Some n" by auto
  show ?thesis
    unfolding get_posts_insecure_def prepare_all_literal [OF n(1)]
    by (simp add: get_posts_secure_def where_eq_plain [OF n(2)])
qed

theorem C10_numeral_queries_agree_witness:
  "(\<exists>r. get_posts_insecure
       \<lparr>users = [\<lparr>users_id = 1, users_username = ''alice'', users_password = ''pw123''\<rparr>,
                 \<lparr>users_id = 2, users_username = ''bob'', users_password = ''hunter2''\<rparr>],
        posts = [\<lparr>posts_id = 1, posts_user_id = 1, posts_content = ''a''\<rparr>,
                 \<lparr>posts_id = 2, posts_user_id = 2, posts_content = ''b''\<rparr>]\<rparr> ''1'' = Some r \<and>
      get_posts_secure
       \<lparr>users = [\<lparr>users_id = 1, users_username = ''alice'', users_password = ''pw123''\<rparr>,
                 \<lparr>users_id = 2, users_username = ''bob'', users_password = ''hunter2''\<rparr>],
        posts = [\<lparr>posts_id = 1, posts_user_id = 1, posts_content = ''a''\<rparr>,
                 \<lparr>posts_id = 2, posts_user_id = 2, posts_content = ''b''\<rparr>]\<rparr> ''1'' = Some r) \<and>
   get_posts_secure
     \<lparr>users = [\<lparr>users_id = 1, users_username = ''alice'', users_password = ''pw123''\<rparr>,
               \<lparr>users_id = 2, users_username = ''bob'', users_password = ''hunter2''\<rparr>],
      posts = [\<lparr>posts_id = 1, posts_user_id = 1, posts_content = ''a''\<rparr>,
               \<lparr>posts_id = 2, posts_user_id = 2, posts_content = ''b''\<rparr>]\<rparr> ''1''
   = Some \<lparr>status = 200, body = JsonBody (JArr [JObj [(''id'', JNum 1), (''user_id'', JNum 1),
        (''content'', JStr ''a'')]])\<rparr>"
proof -
  let ?d = "\<lparr>users = [\<lparr>users_id = 1, users_username = ''alice'', users_password = ''pw123''\<rparr>,
                     \<lparr>users_id = 2, users_username = ''bob'', users_password = ''hunter2''\<rparr>],
            posts = [\<lparr>posts_id = 1, posts_user_id = 1, posts_content = ''a''\<rparr>,
                     \<lparr>posts_id = 2, posts_user_id = 2, posts_content = ''b''\<rparr>]\<rparr>"
  have num: "decimal_numeral ''1''" by (simp add: decimal_numeral_def is_digit_def)
  have agree: "\<exists>r. get_posts_insecure ?d ''1'' = Some r \<and> get_posts_secure ?d ''1'' = Some r"
    by (rule C10_numeral_queries_agree [OF num])
  have secure: "get_posts_secure ?d ''1''
   = Some \<lparr>status = 200, body = JsonBody (JArr [JObj [(''id'', JNum 1), (''user_id'', JNum 1),
        (''content'', JStr ''a'')]])\<rparr>"
    by (simp add: get_posts_secure_def where_eq_plain [OF eval_plain_int(1)] res_json_def
          posts_star_def)
  from agree secure show ?thesis by (rule conjI)
qed

end
